theory Spec2Isabelle
  imports Main "HOL-Library.Sublist" "HOL-Library.AList"
begin

section \<open>The editor adapter (packages/vs-editor/src/TTSAdapter.ts)\<close>

subsection \<open>JavaScript values\<close>

text \<open>
  A thrown value, or the reason of a rejected promise. The adapter reads \<open>error.message\<close>
  and \<open>error.stack\<close> and renders the value with a template literal, so thrown values are
  taken to be \<open>Error\<close> objects: a name and a message. The stack is a string chosen by the
  engine; the model never looks inside it.
\<close>

record js_error =
  errName :: string
  message :: string

definition newError :: "string \<Rightarrow> js_error" where
  "newError msg = \<lparr>errName = ''Error'', message = msg\<rparr>"

text \<open>\<open>`${e}`\<close> on an \<open>Error\<close>: \<open>Error.prototype.toString\<close>.\<close>

definition toString :: "js_error \<Rightarrow> string" where
  "toString e =
     (if errName e = [] then message e
      else if message e = [] then errName e
      else errName e @ '': '' @ message e)"

text \<open>\<open>String.prototype.split\<close> with a one-character separator: never an empty array.\<close>

fun split :: "char \<Rightarrow> string \<Rightarrow> string list" where
  "split c [] = [[]]"
| "split c (x # xs) =
     (if x = c then [] # split c xs
      else (case split c xs of
              [] \<Rightarrow> [[x]]
            | seg # segs \<Rightarrow> (x # seg) # segs))"

text \<open>\<open>xs[i]\<close> on an array: \<open>undefined\<close> (here \<open>None\<close>) out of range.\<close>

fun index :: "'a list \<Rightarrow> nat \<Rightarrow> 'a option" where
  "index [] i = None"
| "index (x # xs) 0 = Some x"
| "index (x # xs) (Suc i) = index xs i"

definition endsWith :: "string \<Rightarrow> string \<Rightarrow> bool" where
  "endsWith s suf = (length suf \<le> length s \<and> drop (length s - length suf) s = suf)"

text \<open>\<open>Array.prototype.toString\<close> on an array of strings, as a template literal renders it.\<close>

fun joinComma :: "string list \<Rightarrow> string" where
  "joinComma [] = []"
| "joinComma [s] = s"
| "joinComma (s # t # ts) = s @ '','' @ joinComma (t # ts)"

text \<open>A number in a template literal: its decimal digits.\<close>

definition digit :: "nat \<Rightarrow> char" where
  "digit n = char_of (48 + n mod 10)"

function decimal :: "nat \<Rightarrow> string" where
  "decimal n = (if n < 10 then [digit n] else decimal (n div 10) @ [digit n])"
  by pat_completeness auto
termination
  by (relation "measure (\<lambda>n. n)") auto

subsection \<open>The imported collaborators\<close>

text \<open>
  \<open>Uri\<close> of the editor API: the adapter reads and replaces only its \<open>path\<close>.
\<close>

record uri =
  scheme :: string
  authority :: string
  path :: string

text \<open>
  \<open>FileInfo\<close> is declared in \<open>./io/files\<close>; \<open>createScripts\<close> destructures it as
  \<open>[fileName]\<close>, so it is a tuple whose first component is the file name.
\<close>

type_synonym 'ft FileInfo = "string \<times> 'ft"

text \<open>
  \<open>IncomingJsonObject\<close> and \<open>OutgoingJsonObject\<close> of the editor API. The guid of an
  outgoing object is whatever \<open>fileName.split(".")[1]\<close> gave, so it can be \<open>undefined\<close>.
\<close>

record IncomingJsonObject =
  name_in :: string
  guid_in :: string
  script_in :: string
  ui_in :: "string option"

record OutgoingJsonObject =
  guid_out :: "string option"
  script_out :: string
  ui_out :: "string option"

text \<open>
  Everything the adapter imports and calls: the bundling functions of \<open>./io/bundle\<close>, the
  workspace functions of \<open>./io/files\<close> and of the editor, the configuration, and the path
  functions. Each is a parameter of the model; a call that can throw returns a sum.
  \<open>runTstl\<close> yields the text that \<open>JSON.stringify(res.diagnostics, null, 2)\<close> prints.
  \<open>bundleXml\<close> receives \<open>includePaths[0]\<close>, which is \<open>undefined\<close> for an empty list.
\<close>

record 'ft deps =
  unbundleLua :: "string \<Rightarrow> js_error + string"
  bundleLua :: "uri \<Rightarrow> string list \<Rightarrow> js_error + string"
  bundleXml :: "uri \<Rightarrow> string option \<Rightarrow> js_error + string"
  runTstl :: "string \<Rightarrow> js_error + string"
  readWorkspaceFiles :: "uri \<Rightarrow> js_error + 'ft FileInfo list"
  saveAll :: "js_error + bool"
  workspaceFolders :: "uri list option"
  includePaths :: "string list"
  useTSTL :: bool
  tstlPath :: string
  joinPath :: "uri \<Rightarrow> string \<Rightarrow> uri"
  posixJoin :: "string \<Rightarrow> string \<Rightarrow> string"
  fsPath :: "uri \<Rightarrow> string"
  uriString :: "uri \<Rightarrow> string"

text \<open>
  What the adapter does to the outside, in the order it does it. A call of
  \<open>writeWorkspaceFile\<close> or of \<open>api.saveAndPlay\<close> is recorded with its arguments; neither is
  awaited by the adapter, and what becomes of the call is not part of the model.
  \<open>ConsoleErrorStack e\<close> is \<open>console.error(e.stack)\<close>.
\<close>

datatype event =
    ConsoleLog string
  | ConsoleError string
  | ConsoleErrorValue js_error
  | ConsoleErrorStack js_error
  | OutputLine string
  | ShowErrorMessage string
  | WriteFile uri string string
  | ApiSaveAndPlay "OutgoingJsonObject list"

subsection \<open>The adapter's functions\<close>

definition info :: "string \<Rightarrow> event list" where
  "info msg = [ConsoleLog msg, OutputLine msg]"

definition error :: "string \<Rightarrow> event list" where
  "error msg = [ConsoleError msg, OutputLine msg]"

definition getUnbundledLua :: "'ft deps \<Rightarrow> string \<Rightarrow> string \<times> event list" where
  "getUnbundledLua d scr =
     (case unbundleLua d scr of
        Inr content \<Rightarrow> (content, [])
      | Inl e \<Rightarrow> (scr, [ConsoleErrorValue e]))"

record RawContent =
  raw :: string
  content :: string

record ObjectFile =
  fileName :: string
  script :: RawContent
  ui :: "RawContent option"

text \<open>The characters that \<open>/([":<>/\\|?*])/g\<close> matches.\<close>

definition forbidden :: "char list" where
  "forbidden = [CHR 0x22, CHR '':'', CHR ''<'', CHR ''>'', CHR ''/'', CHR 0x5C,
                CHR ''|'', CHR ''?'', CHR ''*'']"

definition baseName :: "string \<Rightarrow> string" where
  "baseName nm = filter (\<lambda>c. c \<notin> set forbidden) nm"

definition toFileInfo :: "'ft deps \<Rightarrow> IncomingJsonObject \<Rightarrow> ObjectFile \<times> event list" where
  "toFileInfo d obj =
     (let (unbundled, evs) = getUnbundledLua d (script_in obj)
      in (\<lparr>fileName = baseName (name_in obj) @ ''.'' @ guid_in obj,
           script = \<lparr>raw = script_in obj, content = unbundled\<rparr>,
           ui = None\<rparr>, evs))"

definition getWorkspaceRoot :: "'ft deps \<Rightarrow> js_error + uri" where
  "getWorkspaceRoot d =
     (case workspaceFolders d of
        None \<Rightarrow> Inl (newError ''No workspace selected'')
      | Some [] \<Rightarrow>
          Inl \<lparr>errName = ''TypeError'',
               message = ''Cannot read properties of undefined (reading 'uri')''\<rparr>
      | Some (folder # _) \<Rightarrow> Inr folder)"

definition getOutputPath :: "'ft deps \<Rightarrow> js_error + uri" where
  "getOutputPath d =
     (case getWorkspaceRoot d of
        Inl e \<Rightarrow> Inl e
      | Inr root \<Rightarrow> Inr (joinPath d root ''/.tts''))"

definition getTSTLPath :: "'ft deps \<Rightarrow> js_error + string" where
  "getTSTLPath d =
     (case getWorkspaceRoot d of
        Inl e \<Rightarrow> Inl e
      | Inr root \<Rightarrow> Inr (fsPath d (joinPath d root (tstlPath d))))"

text \<open>The body of the \<open>forEach\<close> of \<open>readFilesFromTTS\<close>, for one file.\<close>

definition writeFile :: "uri \<Rightarrow> uri \<Rightarrow> ObjectFile \<Rightarrow> event list" where
  "writeFile outputPath rawPath file =
     [WriteFile outputPath (fileName file @ ''.lua'') (content (script file)),
      WriteFile rawPath (fileName file @ ''.lua'') (raw (script file))]
     @ (case ui file of
          None \<Rightarrow> []
        | Some u \<Rightarrow>
            [WriteFile rawPath (fileName file @ ''.xml'') (raw u),
             WriteFile outputPath (fileName file @ ''.xml'') (content u)])"

text \<open>
  \<open>readFilesFromTTS\<close>: \<open>map(toFileInfo)\<close> runs over the whole payload first, then
  \<open>forEach\<close> writes. The result is the error thrown, if any, and the events so far.
\<close>

definition readFilesFromTTS ::
  "'ft deps \<Rightarrow> IncomingJsonObject list \<Rightarrow> (js_error + unit) \<times> event list" where
  "readFilesFromTTS d scriptStates =
     (case getOutputPath d of
        Inl e \<Rightarrow> (Inl e, [])
      | Inr outputPath \<Rightarrow>
          (let rawPath = joinPath d outputPath ''/raw'';
               infos = map (toFileInfo d) scriptStates
           in (Inr (),
               info (''Recieved '' @ decimal (length scriptStates) @ '' scripts'')
               @ info (''Writing scripts to '' @ uriString d outputPath)
               @ concat (map snd infos)
               @ concat (map (writeFile outputPath rawPath \<circ> fst) infos))))"

text \<open>
  \<open>scripts\<close> is a \<open>Map\<close>: it keeps its keys in insertion order, \<open>set\<close> on a present key
  replaces the value in place, and \<open>values()\<close> lists the values in that order.
\<close>

type_synonym scripts = "(string option \<times> OutgoingJsonObject) list"

text \<open>
  One iteration of the loop of \<open>createScripts\<close>; \<open>guidOf\<close> and \<open>fileUriOf\<close> are its
  constants \<open>guid\<close> and \<open>fileUri\<close>.
\<close>

definition guidOf :: "string \<Rightarrow> string option" where
  "guidOf fname = index (split (CHR ''.'') fname) 1"

definition fileUriOf :: "'ft deps \<Rightarrow> uri \<Rightarrow> string \<Rightarrow> uri" where
  "fileUriOf d directory fname =
     directory\<lparr>path := posixJoin d (path directory) fname\<rparr>"

definition createScript ::
  "'ft deps \<Rightarrow> uri \<Rightarrow> scripts \<times> event list \<Rightarrow> 'ft FileInfo \<Rightarrow> scripts \<times> event list" where
  "createScript d directory st file =
     (let (scripts, evs) = st;
          fname = fst file;
          guid = guidOf fname;
          fileUri = fileUriOf d directory fname;
          scripts1 =
            (if map_of scripts guid = None
             then AList.update guid \<lparr>guid_out = guid, script_out = [], ui_out = None\<rparr> scripts
             else scripts)
      in if endsWith fname ''.lua'' then
           (case bundleLua d fileUri (includePaths d) of
              Inr bundled \<Rightarrow>
                (AList.map_entry guid (\<lambda>obj. obj\<lparr>script_out := bundled\<rparr>) scripts1, evs)
            | Inl e \<Rightarrow> (scripts1, evs @ [ShowErrorMessage (message e), ConsoleErrorStack e]))
         else if endsWith fname ''.xml'' then
           (case bundleXml d fileUri (index (includePaths d) 0) of
              Inr bundled \<Rightarrow>
                (AList.map_entry guid (\<lambda>obj. obj\<lparr>ui_out := Some bundled\<rparr>) scripts1, evs)
            | Inl e \<Rightarrow> (scripts1, evs @ [ShowErrorMessage (message e), ConsoleErrorStack e]))
         else (scripts1, evs))"

text \<open>The part of \<open>createScripts\<close> before the loop: it can throw, and nothing catches it there.\<close>

definition transpile :: "'ft deps \<Rightarrow> (js_error + unit) \<times> event list" where
  "transpile d =
     (let evs = info (''Using include paths '' @ joinComma (includePaths d))
      in if useTSTL d then
           (case getTSTLPath d of
              Inl e \<Rightarrow> (Inl e, evs)
            | Inr p \<Rightarrow>
                (let evs1 = evs @ info (''Running Typescript to Lua on '' @ p)
                 in case runTstl d p of
                      Inl e \<Rightarrow> (Inl e, evs1)
                    | Inr diagnostics \<Rightarrow> (Inr (), evs1 @ info diagnostics)))
         else (Inr (), evs))"

definition createScripts ::
  "'ft deps \<Rightarrow> 'ft FileInfo list \<Rightarrow> uri \<Rightarrow> (js_error + OutgoingJsonObject list) \<times> event list" where
  "createScripts d files directory =
     (case transpile d of
        (Inl e, evs) \<Rightarrow> (Inl e, evs)
      | (Inr _, evs) \<Rightarrow>
          (let (scripts, evs1) = foldl (createScript d directory) ([], evs) files
           in (Inr (map snd scripts), evs1)))"

definition saveAllFiles :: "'ft deps \<Rightarrow> js_error + unit" where
  "saveAllFiles d =
     (case saveAll d of
        Inr _ \<Rightarrow> Inr ()
      | Inl reason \<Rightarrow>
          Inl (newError (''Unable to save opened files.'' @ [CHR 0x0A] @ ''Detail: ''
                         @ toString reason)))"

text \<open>
  The \<open>try\<close> block of \<open>saveAndPlay\<close>: the first step that throws ends it.
\<close>

definition trySaveAndPlay :: "'ft deps \<Rightarrow> (js_error + unit) \<times> event list" where
  "trySaveAndPlay d =
     (case saveAllFiles d of
        Inl e \<Rightarrow> (Inl e, [])
      | Inr _ \<Rightarrow>
     (case getOutputPath d of
        Inl e \<Rightarrow> (Inl e, [])
      | Inr outputPath \<Rightarrow>
     (case readWorkspaceFiles d outputPath of
        Inl e \<Rightarrow> (Inl e, [])
      | Inr files \<Rightarrow>
     (case createScripts d files outputPath of
        (Inl e, evs) \<Rightarrow> (Inl e, evs)
      | (Inr scripts, evs) \<Rightarrow> (Inr (), evs @ [ApiSaveAndPlay scripts])))))"

text \<open>
  \<open>saveAndPlay\<close>: the promise it returns settles with the first component, \<open>Inr ()\<close> for
  resolved and \<open>Inl e\<close> for rejected with \<open>e\<close>.
\<close>

definition saveAndPlay :: "'ft deps \<Rightarrow> (js_error + unit) \<times> event list" where
  "saveAndPlay d =
     (case trySaveAndPlay d of
        (Inl e, evs) \<Rightarrow> (Inr (), evs @ error (toString e))
      | (Inr _, evs) \<Rightarrow> (Inr (), evs))"

subsection \<open>What the loop of \<open>createScripts\<close> does with one file\<close>








text \<open>Some call of \<open>api.saveAndPlay\<close> is among the events.\<close>

definition sends :: "event list \<Rightarrow> bool" where
  "sends evs = (\<exists>scripts. ApiSaveAndPlay scripts \<in> set evs)"

section \<open>The bundling core\<close>

text \<open>
  The resolver, the grapher, the bundler and the unbundler are imported by the adapter from
  \<open>./io/bundle\<close> and are not among the sources. They are modelled here from the
  specification's sections 3, 4 and 7.
\<close>

subsection \<open>Data model\<close>

text \<open>
  Modelled from the spec: the IncludeDirective of the missing resolver (section 3): the
  literal directive text, the referenced module name and the source line it appeared on.
\<close>

record directive =
  directiveText :: string
  target :: string
  line :: nat

text \<open>
  Modelled from the spec: the Module of the missing bundler (section 3): its identifier, its
  raw text and the ordered include directives found in it, with the resolved absolute path
  that keys it in the dependency graph and its original relative path.
\<close>

record module =
  ident :: string
  absPath :: string
  relPath :: string
  source :: string
  directives :: "directive list"

text \<open>
  Modelled from the spec: the files that the missing resolver searches. An entry
  \<open>((root, name), m)\<close> says that under the search root \<open>root\<close> a file matching the module
  name \<open>name\<close> exists, and that reading it gives the module \<open>m\<close>.
\<close>

type_synonym project = "((string \<times> string) \<times> module) list"

text \<open>
  Modelled from the spec: the error taxonomy of the missing core (section 7).
  ModuleNotFoundError carries the module name and the search list, CyclicIncludeError the
  cycle chain, UnresolvedIncludeError the resolution failure it wraps and the source line of
  the include.
\<close>

datatype bundle_error =
    ModuleNotFoundError string "string list"
  | CyclicIncludeError "string list"
  | UnresolvedIncludeError bundle_error nat
  | MalformedBundleError

subsection \<open>Include resolver\<close>

text \<open>
  Modelled from the spec: the search loop of the missing \<open>resolve\<close> (section 4.1): each search
  root in list order, the first root where a file matching the module name exists.
\<close>

fun resolveIn :: "project \<Rightarrow> string \<Rightarrow> string list \<Rightarrow> module option" where
  "resolveIn proj nm [] = None"
| "resolveIn proj nm (root # roots) =
     (case map_of proj (root, nm) of
        Some m \<Rightarrow> Some m
      | None \<Rightarrow> resolveIn proj nm roots)"

text \<open>
  Modelled from the spec: the missing \<open>resolve(moduleName, searchPaths)\<close> (section 4.1), which
  fails with ModuleNotFoundError, carrying the module name and the full search list, when no
  root matches.
\<close>

definition resolve :: "project \<Rightarrow> string \<Rightarrow> string list \<Rightarrow> bundle_error + module" where
  "resolve proj nm searchPaths =
     (case resolveIn proj nm searchPaths of
        Some m \<Rightarrow> Inr m
      | None \<Rightarrow> Inl (ModuleNotFoundError nm searchPaths))"

subsection \<open>Dependency grapher\<close>

text \<open>
  Modelled from the spec: the number of files of the project that are not in progress, which
  bounds the depth of the missing grapher's walk.
\<close>

definition unvisited :: "project \<Rightarrow> string list \<Rightarrow> nat" where
  "unvisited proj stack = card ((absPath \<circ> snd) ` set proj - set stack)"

text \<open>
  Modelled from the spec: the depth-first walk of the missing \<open>buildGraph\<close> (section 4.2).
  \<open>stack\<close> holds the modules in progress, in visitation order, and \<open>finished\<close> the modules
  done, in post-order; a module in neither is unvisited. Each directive is resolved in source
  order; a resolution failure is wrapped with the directive's line (section 4.3), an edge back
  to a module in progress fails with the cycle chain, a module already done is not visited
  again.
\<close>

function visitModule ::
    "project \<Rightarrow> string list \<Rightarrow> string list \<Rightarrow> string list \<Rightarrow> module
       \<Rightarrow> bundle_error + string list"
  and visitIncludes ::
    "project \<Rightarrow> string list \<Rightarrow> string list \<Rightarrow> string list \<Rightarrow> directive list
       \<Rightarrow> bundle_error + string list"
where
  "visitModule proj roots stack finished m =
     (case visitIncludes proj roots (stack @ [absPath m]) finished (directives m) of
        Inl e \<Rightarrow> Inl e
      | Inr finished' \<Rightarrow> Inr (finished' @ [absPath m]))"
| "visitIncludes proj roots stack finished [] = Inr finished"
| "visitIncludes proj roots stack finished (d # ds) =
     (case resolve proj (target d) roots of
        Inl e \<Rightarrow> Inl (UnresolvedIncludeError e (line d))
      | Inr m \<Rightarrow>
          if absPath m \<in> set stack then
            Inl (CyclicIncludeError (dropWhile (\<lambda>p. p \<noteq> absPath m) stack @ [absPath m]))
          else if absPath m \<in> set finished then
            visitIncludes proj roots stack finished ds
          else
            (case visitModule proj roots stack finished m of
               Inl e \<Rightarrow> Inl e
             | Inr finished' \<Rightarrow> visitIncludes proj roots stack finished' ds))"
  by pat_completeness auto
termination
proof (relation "inv_image (less_than <*lex*> less_than)
    (\<lambda>x. case x of
       Inl (proj, roots, stack, finished, m) \<Rightarrow>
         (2 * unvisited proj (stack @ [absPath m]) + 2, 0)
     | Inr (proj, roots, stack, finished, ds) \<Rightarrow>
         (2 * unvisited proj stack + 1, length ds))", goal_cases)
  case 1
  show ?case by auto
next
  case (2 proj roots stack finished m)
  then show ?case by simp
next
  case (3 proj roots stack finished d ds)
  then show ?case by simp
next
  case (4 proj roots stack finished d ds m)
  have "resolveIn proj nm rs = Some m \<Longrightarrow> absPath m \<in> (absPath \<circ> snd) ` set proj" for nm rs
    by (induction rs) (auto split: option.splits dest!: map_of_SomeD intro: rev_image_eqI)
  with 4 have mem: "absPath m \<in> (absPath \<circ> snd) ` set proj"
    by (auto simp: resolve_def split: option.splits)
  have "(absPath \<circ> snd) ` set proj - set (stack @ [absPath m])
        = ((absPath \<circ> snd) ` set proj - set stack) - {absPath m}"
    by auto
  moreover have "absPath m \<in> (absPath \<circ> snd) ` set proj - set stack"
    using mem 4 by simp
  moreover have "finite ((absPath \<circ> snd) ` set proj - set stack)" by simp
  ultimately have "unvisited proj (stack @ [absPath m]) < unvisited proj stack"
    unfolding unvisited_def by (metis card_Diff1_less)
  then show ?case by simp
next
  case (5 proj roots stack finished d ds m finished')
  then show ?case by simp
qed

text \<open>
  Modelled from the spec: the missing \<open>buildGraph(rootModule, resolver)\<close> (section 4.2): the
  walk from the root with nothing in progress and nothing done. Its result is the flattening
  order, the post-order of the walk.
\<close>

definition buildGraph :: "project \<Rightarrow> string list \<Rightarrow> module \<Rightarrow> bundle_error + string list" where
  "buildGraph proj searchPaths root = visitModule proj searchPaths [] [] root"

subsection \<open>Bundler\<close>

text \<open>
  Modelled from the spec: the missing \<open>bundle(rootModule, searchPaths, grammar)\<close>
  (section 4.3), named \<open>bundleDocument\<close> here: build the graph and the flattening order,
  then emit the combined text. It fails with the error of the graph phase. The spec leaves the marker syntax open
  (section 9), so the emission of the text, which depends on the grammar, is the parameter
  \<open>emit\<close>.
\<close>

definition bundleDocument ::
  "(project \<Rightarrow> string list \<Rightarrow> module \<Rightarrow> string list \<Rightarrow> string)
     \<Rightarrow> project \<Rightarrow> string list \<Rightarrow> module \<Rightarrow> bundle_error + string" where
  "bundleDocument emit proj searchPaths root =
     (case buildGraph proj searchPaths root of
        Inl e \<Rightarrow> Inl e
      | Inr order \<Rightarrow> Inr (emit proj searchPaths root order))"

subsection \<open>Unbundler\<close>

text \<open>
  Modelled from the spec: the BoundaryMarker that the missing unbundler parses (sections 3,
  4.3 and 6): its role, the module identifier, the original relative path, the declared
  starting line and the line count. A back-reference marker has an identifier and no content.
\<close>

datatype role = Begin | End | BackReference

text \<open>
  Modelled from the spec: the manifest record of a BoundaryMarker of the missing unbundler,
  with the fields named above.
\<close>

record marker =
  markerRole :: role
  moduleId :: string
  originalPath :: string
  startLine :: nat
  lineCount :: nat

text \<open>
  Modelled from the spec: the keys of the mapping that the missing \<open>unbundle\<close> returns: a
  module's recorded original relative path, the synthetic leading and trailing modules, and
  the one unsplit module of a malformed input.
\<close>

datatype module_key = Original string | Leading | Trailing | Unsplit

text \<open>
  Modelled from the spec: the outcome of the missing \<open>unbundle\<close>: the mapping, in document
  order, and the non-fatal condition reported with it, if any.
\<close>

record unbundled =
  modules :: "(module_key \<times> string) list"
  condition :: "bundle_error option"

text \<open>
  Modelled from the spec: the state of the missing unbundler while it reads the lines: the
  blocks whose opening marker was read and whose closing marker was not, innermost first,
  each with the lines read since; the closed blocks; the module identifiers seen; the lines
  before the first marker and the lines outside every block after it; whether a marker was
  read; the starting line that the last opening marker declared.
\<close>

record scan_state =
  opened :: "(marker \<times> string list) list"
  closed :: "(string \<times> string list) list"
  known :: "string list"
  leading :: "string list"
  trailing :: "string list"
  seen :: bool
  lastStart :: "nat option"

text \<open>Modelled from the spec: the state of the missing unbundler before the first line.\<close>

definition initial :: scan_state where
  "initial = \<lparr>opened = [], closed = [], known = [], leading = [], trailing = [],
              seen = False, lastStart = None\<rparr>"

text \<open>
  Modelled from the spec: one line of the missing unbundler's parse (section 4.4). The marker
  syntax is open (section 9): \<open>recognise\<close> tells whether a line is a marker of the grammar.
  A line of content belongs to every block it lies in; outside every block it goes to the
  leading module before the first marker and to the trailing module after it. \<open>None\<close> is a
  malformed bundle: an opening marker out of declared order, a closing marker that does not
  close the innermost open block, a back-reference to an unknown identifier.
\<close>

definition scanLine ::
  "(string \<Rightarrow> marker option) \<Rightarrow> scan_state \<Rightarrow> string \<Rightarrow> scan_state option" where
  "scanLine recognise st l =
     (case recognise l of
        None \<Rightarrow>
          (if opened st = [] then
             (if seen st then Some (st\<lparr>trailing := trailing st @ [l]\<rparr>)
              else Some (st\<lparr>leading := leading st @ [l]\<rparr>))
           else Some (st\<lparr>opened := map (\<lambda>(m, ls). (m, ls @ [l])) (opened st)\<rparr>))
      | Some m \<Rightarrow>
          (case markerRole m of
             Begin \<Rightarrow>
               (if (case lastStart st of None \<Rightarrow> True | Some n \<Rightarrow> n < startLine m)
                then Some (st\<lparr>opened := (m, []) # opened st,
                               known := known st @ [moduleId m],
                               seen := True,
                               lastStart := Some (startLine m)\<rparr>)
                else None)
           | End \<Rightarrow>
               (case opened st of
                  [] \<Rightarrow> None
                | (b, ls) # outer \<Rightarrow>
                    (if moduleId b = moduleId m
                     then Some (st\<lparr>opened := outer,
                                    closed := closed st @ [(originalPath b, ls)]\<rparr>)
                     else None))
           | BackReference \<Rightarrow>
               (if moduleId m \<in> set (known st) then Some (st\<lparr>seen := True\<rparr>) else None)))"

text \<open>Modelled from the spec: the missing unbundler's parse of all lines, in order.\<close>

fun scanLines ::
  "(string \<Rightarrow> marker option) \<Rightarrow> scan_state \<Rightarrow> string list \<Rightarrow> scan_state option" where
  "scanLines recognise st [] = Some st"
| "scanLines recognise st (l # ls) =
     (case scanLine recognise st l of
        None \<Rightarrow> None
      | Some st' \<Rightarrow> scanLines recognise st' ls)"

text \<open>Modelled from the spec: the text of a module of the missing unbundler, from its lines.\<close>

fun joinLines :: "string list \<Rightarrow> string" where
  "joinLines [] = []"
| "joinLines [l] = l"
| "joinLines (l # k # ls) = l @ [CHR 0x0A] @ joinLines (k # ls)"

text \<open>
  Modelled from the spec: the missing \<open>unbundle(combinedContent, grammar)\<close> (section 4.4),
  named \<open>unbundleDocument\<close> here.
  When the markers are absent, unbalanced, out of declared order or name an unknown module,
  the whole input is one unsplit module and the condition MalformedBundleError is returned
  with it, not thrown. Otherwise each block gives a module under its recorded original
  relative path, with the synthetic leading and trailing modules when they have content.
\<close>

definition unbundleDocument :: "(string \<Rightarrow> marker option) \<Rightarrow> string \<Rightarrow> unbundled" where
  "unbundleDocument recognise combinedContent =
     (let malformed = \<lparr>modules = [(Unsplit, combinedContent)],
                       condition = Some MalformedBundleError\<rparr>
      in case scanLines recognise initial (split (CHR 0x0A) combinedContent) of
           None \<Rightarrow> malformed
         | Some st \<Rightarrow>
             (if seen st \<and> opened st = [] then
                \<lparr>modules =
                   (if leading st = [] then [] else [(Leading, joinLines (leading st))])
                   @ map (\<lambda>(p, ls). (Original p, joinLines ls)) (closed st)
                   @ (if trailing st = [] then [] else [(Trailing, joinLines (trailing st))]),
                 condition = None\<rparr>
              else malformed))"

section \<open>Example data\<close>

text \<open>
  Modelled from the spec: an example of how the missing core's errors reach the adapter as
  thrown \<open>Error\<close> objects: the error kind as the name, what it carries as the message.
\<close>

fun thrown :: "bundle_error \<Rightarrow> js_error" where
  "thrown (ModuleNotFoundError nm roots) = \<lparr>errName = ''ModuleNotFoundError'', message = nm\<rparr>"
| "thrown (CyclicIncludeError chain) =
     \<lparr>errName = ''CyclicIncludeError'', message = joinComma chain\<rparr>"
| "thrown (UnresolvedIncludeError e n) =
     \<lparr>errName = ''UnresolvedIncludeError'', message = message (thrown e) @ '':'' @ decimal n\<rparr>"
| "thrown MalformedBundleError = \<lparr>errName = ''MalformedBundleError'', message = []\<rparr>"

text \<open>A project with the module \<open>M\<close> under the second of two search roots only.\<close>

definition moduleM :: module where
  "moduleM = \<lparr>ident = ''M'', absPath = ''dirY/M.lua'', relPath = ''M.lua'',
              source = ''return 1'', directives = []\<rparr>"

definition exampleProject :: project where
  "exampleProject = [((''dirY'', ''M''), moduleM)]"

text \<open>
  Modelled from the spec: an example of the root module that the missing bundlers read from
  a workspace file: the file \<open>Bad.aaaaaa.lua\<close> includes a module that exists nowhere, every
  other file includes \<open>M\<close>.
\<close>

definition exampleRoot :: "string \<Rightarrow> module" where
  "exampleRoot p =
     \<lparr>ident = p, absPath = p, relPath = p, source = [],
      directives =
        (if p = ''/ws/.tts/Bad.aaaaaa.lua''
         then [\<lparr>directiveText = ''require Missing'', target = ''Missing'', line = 1\<rparr>]
         else [\<lparr>directiveText = ''require M'', target = ''M'', line = 1\<rparr>])\<rparr>"

text \<open>An emission that lists the flattening order, in place of a combined text.\<close>

definition exampleEmit :: "project \<Rightarrow> string list \<Rightarrow> module \<Rightarrow> string list \<Rightarrow> string" where
  "exampleEmit proj searchPaths root order = joinComma order"

text \<open>
  Modelled from the spec: an example of the missing \<open>bundleLua\<close> and \<open>bundleXml\<close> of
  \<open>./io/bundle\<close>: both bundle the root module of the file with the search roots they are
  given, and throw what the core fails with.
\<close>

definition exampleBundle :: "uri \<Rightarrow> string list \<Rightarrow> js_error + string" where
  "exampleBundle u searchPaths =
     (case bundleDocument exampleEmit exampleProject searchPaths (exampleRoot (path u)) of
        Inl e \<Rightarrow> Inl (thrown e)
      | Inr doc \<Rightarrow> Inr doc)"

definition workspaceUri :: uri where
  "workspaceUri = \<lparr>scheme = ''file'', authority = [], path = ''/ws''\<rparr>"

definition outputUri :: uri where
  "outputUri = \<lparr>scheme = ''file'', authority = [], path = ''/ws/.tts''\<rparr>"

text \<open>
  Collaborators for the examples: bundling the script of \<open>Bad.aaaaaa.lua\<close> throws, every
  other script bundles; the markup bundler needs a search directory.
\<close>

definition exampleDeps :: "unit deps" where
  "exampleDeps =
     \<lparr>unbundleLua = (\<lambda>scr. if scr = ''broken'' then Inl (newError ''not a bundle'')
                           else Inr scr),
      bundleLua = (\<lambda>u searchPaths.
                     if path u = ''/ws/.tts/Bad.aaaaaa.lua'' then Inl (newError ''cannot bundle'')
                     else Inr (''bundled '' @ path u)),
      bundleXml = (\<lambda>u root.
                     case root of
                       None \<Rightarrow> Inl (newError ''no include path'')
                     | Some r \<Rightarrow> Inr (''bundled '' @ path u)),
      runTstl = (\<lambda>p. Inl (newError ''tstl failed'')),
      readWorkspaceFiles = (\<lambda>u. Inr [(''Good.bbbbbb.lua'', ())]),
      saveAll = Inr True,
      workspaceFolders = Some [workspaceUri],
      includePaths = [''dirX'', ''dirY''],
      useTSTL = False,
      tstlPath = ''/tstl'',
      joinPath = (\<lambda>u p. u\<lparr>path := path u @ p\<rparr>),
      posixJoin = (\<lambda>a b. a @ ''/'' @ b),
      fsPath = path,
      uriString = path\<rparr>"

text \<open>
  Modelled from the spec: the same collaborators with the example of the missing
  \<open>bundleLua\<close> and \<open>bundleXml\<close> that resolves includes: the markup bundler searches the one
  directory it is given.
\<close>

definition resolvingDeps :: "unit deps" where
  "resolvingDeps =
     exampleDeps\<lparr>bundleLua := exampleBundle,
                 bundleXml := (\<lambda>u root. exampleBundle u (case root of None \<Rightarrow> []
                                                         | Some r \<Rightarrow> [r]))\<rparr>"

text \<open>Two modules that include each other, and a module present under two search roots.\<close>

definition cycleA :: module where
  "cycleA = \<lparr>ident = ''A'', absPath = ''lib/A.lua'', relPath = ''A.lua'', source = ''require B'',
             directives = [\<lparr>directiveText = ''require B'', target = ''B'', line = 1\<rparr>]\<rparr>"

definition cycleB :: module where
  "cycleB = \<lparr>ident = ''B'', absPath = ''lib/B.lua'', relPath = ''B.lua'', source = ''require A'',
             directives = [\<lparr>directiveText = ''require A'', target = ''A'', line = 1\<rparr>]\<rparr>"

definition cycleProject :: project where
  "cycleProject = [((''lib'', ''A''), cycleA), ((''lib'', ''B''), cycleB)]"

definition moduleX :: module where
  "moduleX = \<lparr>ident = ''M'', absPath = ''dirX/M.lua'', relPath = ''M.lua'',
              source = ''return 0'', directives = []\<rparr>"

definition bothProject :: project where
  "bothProject = [((''dirY'', ''M''), moduleM), ((''dirX'', ''M''), moduleX)]"

text \<open>A marker syntax for a script grammar with one module, \<open>lib\<close>.\<close>

definition exampleMarker :: "string \<Rightarrow> marker option" where
  "exampleMarker l =
     (if l = ''-- begin lib'' then
        Some \<lparr>markerRole = Begin, moduleId = ''lib'', originalPath = ''lib.lua'',
              startLine = 2, lineCount = 1\<rparr>
      else if l = ''-- end lib'' then
        Some \<lparr>markerRole = End, moduleId = ''lib'', originalPath = ''lib.lua'',
              startLine = 2, lineCount = 1\<rparr>
      else None)"

text \<open>Collaborators that fail: saving, reading the workspace, transpiling.\<close>

definition failingSave :: "unit deps" where
  "failingSave = exampleDeps\<lparr>saveAll := Inl (newError ''disk full'')\<rparr>"

definition failingRead :: "unit deps" where
  "failingRead = exampleDeps\<lparr>readWorkspaceFiles := (\<lambda>u. Inl (newError ''cannot read''))\<rparr>"

definition failingTranspile :: "unit deps" where
  "failingTranspile = exampleDeps\<lparr>useTSTL := True\<rparr>"

section \<open>Properties of the adapter\<close>

subsection \<open>File names and guids\<close>

lemma split_without: "c \<notin> set xs \<Longrightarrow> split c xs = [xs]"
  by (induction xs) auto

lemma split_at_first: "c \<notin> set xs \<Longrightarrow> split c (xs @ c # ys) = xs # split c ys"
  by (induction xs) (auto split: list.splits)

lemma split_nonempty: "split c xs \<noteq> []"
  by (induction xs) (auto split: list.splits)

lemma guidOf_two_segments:
  "CHR ''.'' \<notin> set b \<Longrightarrow> CHR ''.'' \<notin> set g \<Longrightarrow> guidOf (b @ CHR ''.'' # g) = Some g"
  by (simp add: guidOf_def split_at_first split_without)

lemma guidOf_more_segments:
  "CHR ''.'' \<notin> set b \<Longrightarrow> CHR ''.'' \<notin> set g \<Longrightarrow>
   guidOf ((b @ CHR ''.'' # g) @ CHR ''.'' # ext) = Some g"
  using split_nonempty[of "CHR ''.''" ext]
  by (cases "split (CHR ''.'') ext") (simp_all add: guidOf_def split_at_first)

lemma fileName_toFileInfo:
  "fileName (fst (toFileInfo d obj)) = baseName (name_in obj) @ ''.'' @ guid_in obj"
  by (simp add: toFileInfo_def split_beta)

lemma ui_toFileInfo: "ui (fst (toFileInfo d obj)) = None"
  by (simp add: toFileInfo_def split_beta)

lemma endsWith_append: "endsWith (s @ suf) suf"
  by (simp add: endsWith_def)

lemma not_endsWith_xml: "\<not> endsWith (s @ ''.lua'') ''.xml''"
  by (simp add: endsWith_def)

subsection \<open>Files written on receipt\<close>

lemma writeFile_names:
  "ui file = None \<Longrightarrow> WriteFile dir nm body \<in> set (writeFile outputPath rawPath file) \<Longrightarrow>
   nm = fileName file @ ''.lua''"
  by (auto simp: writeFile_def)

lemma getUnbundledLua_writes_nothing:
  "WriteFile dir nm body \<notin> set (snd (getUnbundledLua d scr))"
  by (auto simp: getUnbundledLua_def split: sum.splits)

lemma toFileInfo_writes_nothing:
  "WriteFile dir nm body \<notin> set (snd (toFileInfo d obj))"
  using getUnbundledLua_writes_nothing[of dir nm body d "script_in obj"]
  by (simp add: toFileInfo_def split_beta)

text \<open>
  C8. \<open>toFileInfo\<close> never fills the \<open>ui\<close> field of its result, and every file that
  \<open>readFilesFromTTS\<close> writes, for every payload, has a name that ends in \<open>.lua\<close> and not in
  \<open>.xml\<close>: the branch that writes the markup files is never taken.
\<close>

theorem readFilesFromTTS_writes_lua_only:
  "ui (fst (toFileInfo d obj)) = None
   \<and> (\<forall>dir nm body. WriteFile dir nm body \<in> set (snd (readFilesFromTTS d scriptStates))
        \<longrightarrow> endsWith nm ''.lua'' \<and> \<not> endsWith nm ''.xml'')"
proof (intro conjI allI impI)
  show "ui (fst (toFileInfo d obj)) = None" by (rule ui_toFileInfo)
next
  fix dir nm body
  assume w: "WriteFile dir nm body \<in> set (snd (readFilesFromTTS d scriptStates))"
  have "\<exists>stem. nm = stem @ ''.lua''"
  proof (cases "getOutputPath d")
    case (Inl e)
    with w show ?thesis by (simp add: readFilesFromTTS_def)
  next
    case (Inr outputPath)
    with w obtain st where "st \<in> set scriptStates"
      and "WriteFile dir nm body
             \<in> set (writeFile outputPath (joinPath d outputPath ''/raw'') (fst (toFileInfo d st)))"
      using toFileInfo_writes_nothing[of dir nm body d]
      by (auto simp: readFilesFromTTS_def Let_def info_def)
    then have "nm = fileName (fst (toFileInfo d st)) @ ''.lua''"
      using writeFile_names[OF ui_toFileInfo] by blast
    then show ?thesis by blast
  qed
  then show "endsWith nm ''.lua''" and "\<not> endsWith nm ''.xml''"
    by (auto simp: endsWith_append not_endsWith_xml)
qed

theorem readFilesFromTTS_writes_lua_only_witness:
  "WriteFile outputUri ''Board.abc123.lua'' ''broken''
     \<in> set (snd (readFilesFromTTS exampleDeps
          [\<lparr>name_in = ''Bo:ard'', guid_in = ''abc123'', script_in = ''broken'',
            ui_in = Some ''<Panel/>''\<rparr>]))
   \<and> endsWith ''Board.abc123.lua'' ''.lua'' \<and> \<not> endsWith ''Board.abc123.lua'' ''.xml''"
proof -
  have w: "WriteFile outputUri ''Board.abc123.lua'' ''broken''
     \<in> set (snd (readFilesFromTTS exampleDeps
          [\<lparr>name_in = ''Bo:ard'', guid_in = ''abc123'', script_in = ''broken'',
            ui_in = Some ''<Panel/>''\<rparr>]))"
    by (simp add: readFilesFromTTS_def getOutputPath_def getWorkspaceRoot_def exampleDeps_def
        workspaceUri_def outputUri_def toFileInfo_def getUnbundledLua_def writeFile_def
        baseName_def forbidden_def info_def Let_def)
  with readFilesFromTTS_writes_lua_only[of exampleDeps
      "\<lparr>name_in = ''Bo:ard'', guid_in = ''abc123'', script_in = ''broken'',
        ui_in = Some ''<Panel/>''\<rparr>"
      "[\<lparr>name_in = ''Bo:ard'', guid_in = ''abc123'', script_in = ''broken'',
         ui_in = Some ''<Panel/>''\<rparr>]"]
  show ?thesis by blast
qed

subsection \<open>The guid recovered from a file name\<close>

text \<open>
  C9, as amended. For every incoming object whose name, after the forbidden characters are
  stripped, contains no dot, and whose guid contains no dot either, the guid that
  \<open>createScripts\<close> recovers (the second dot-separated segment) from the generated file name,
  with or without the \<open>.lua\<close> extension the file gets on disk, is the object's guid. For some
  object whose name contains a dot, the recovered guid differs from the object's guid.
\<close>

theorem guid_recovered_unless_dotted:
  "(CHR ''.'' \<notin> set (baseName (name_in obj)) \<and> CHR ''.'' \<notin> set (guid_in obj)
      \<longrightarrow> guidOf (fileName (fst (toFileInfo d obj))) = Some (guid_in obj)
        \<and> guidOf (fileName (fst (toFileInfo d obj)) @ ''.lua'') = Some (guid_in obj))
   \<and> (\<exists>obj'. CHR ''.'' \<in> set (name_in obj')
         \<and> guidOf (fileName (fst (toFileInfo d obj'))) \<noteq> Some (guid_in obj')
         \<and> guidOf (fileName (fst (toFileInfo d obj')) @ ''.lua'') \<noteq> Some (guid_in obj'))"
proof (intro conjI impI)
  assume "CHR ''.'' \<notin> set (baseName (name_in obj)) \<and> CHR ''.'' \<notin> set (guid_in obj)"
  then show "guidOf (fileName (fst (toFileInfo d obj))) = Some (guid_in obj)"
    using guidOf_two_segments[of "baseName (name_in obj)" "guid_in obj"]
    by (simp add: fileName_toFileInfo)
next
  assume "CHR ''.'' \<notin> set (baseName (name_in obj)) \<and> CHR ''.'' \<notin> set (guid_in obj)"
  then show "guidOf (fileName (fst (toFileInfo d obj)) @ ''.lua'') = Some (guid_in obj)"
    using guidOf_more_segments[of "baseName (name_in obj)" "guid_in obj" "''lua''"]
    by (simp add: fileName_toFileInfo)
next
  let ?o = "\<lparr>name_in = ''a.b'', guid_in = ''123456'', script_in = [], ui_in = None\<rparr>"
  have "CHR ''.'' \<in> set (name_in ?o)
         \<and> guidOf (fileName (fst (toFileInfo d ?o))) \<noteq> Some (guid_in ?o)
         \<and> guidOf (fileName (fst (toFileInfo d ?o)) @ ''.lua'') \<noteq> Some (guid_in ?o)"
    by (simp add: fileName_toFileInfo baseName_def forbidden_def guidOf_def)
  then show "\<exists>obj'. CHR ''.'' \<in> set (name_in obj')
         \<and> guidOf (fileName (fst (toFileInfo d obj'))) \<noteq> Some (guid_in obj')
         \<and> guidOf (fileName (fst (toFileInfo d obj')) @ ''.lua'') \<noteq> Some (guid_in obj')"
    by blast
qed

theorem guid_recovered_unless_dotted_witness:
  "CHR ''.'' \<notin> set (baseName ''Bo:ard'') \<and> CHR ''.'' \<notin> set ''abc123''
   \<and> guidOf (fileName (fst (toFileInfo exampleDeps
        \<lparr>name_in = ''Bo:ard'', guid_in = ''abc123'', script_in = [], ui_in = None\<rparr>))
        @ ''.lua'') = Some ''abc123''"
proof -
  have h: "CHR ''.'' \<notin> set (baseName ''Bo:ard'') \<and> CHR ''.'' \<notin> set ''abc123''"
    by (simp add: baseName_def forbidden_def)
  with guid_recovered_unless_dotted[of
      "\<lparr>name_in = ''Bo:ard'', guid_in = ''abc123'', script_in = [], ui_in = None\<rparr>"
      exampleDeps]
  show ?thesis by simp
qed

text \<open>
  C9 as stated fails when the guid itself contains a dot: the name \<open>A\<close> has no dot, and the
  guid recovered for the guid \<open>1.2\<close> is \<open>1\<close>.
\<close>

theorem guid_with_dot_counterexample:
  "CHR ''.'' \<notin> set (baseName ''A'')
   \<and> guidOf (fileName (fst (toFileInfo exampleDeps
        \<lparr>name_in = ''A'', guid_in = ''1.2'', script_in = [], ui_in = None\<rparr>))) = Some ''1''
   \<and> guidOf (fileName (fst (toFileInfo exampleDeps
        \<lparr>name_in = ''A'', guid_in = ''1.2'', script_in = [], ui_in = None\<rparr>)) @ ''.lua'')
       = Some ''1''"
  by (simp add: fileName_toFileInfo baseName_def forbidden_def guidOf_def)

subsection \<open>The loop of \<open>createScripts\<close>\<close>




lemma createScript_other:
  "k \<noteq> guidOf (fst f) \<Longrightarrow> map_of (fst (createScript d directory (s, evs) f)) k = map_of s k"
  by (auto simp: createScript_def Let_def AList.update_conv' AList.map_of_map_entry
      split: sum.splits option.splits)

lemma createScript_present:
  "\<exists>obj. map_of (fst (createScript d directory (s, evs) f)) (guidOf (fst f)) = Some obj"
  by (auto simp: createScript_def Let_def AList.update_conv' AList.map_of_map_entry
      split: sum.splits option.splits)
















text \<open>
  C3. The code at a failing input: the include paths are \<open>dirX, dirY\<close> and the module \<open>M\<close>
  exists under \<open>dirY\<close> only, so that resolution over the ordered list finds it. In
  \<open>createScripts\<close> the script file is bundled with the whole list, and its include of \<open>M\<close>
  resolves; the markup file of the same object, which includes the same module, is bundled
  with \<open>includePaths[0]\<close>, the single directory \<open>dirX\<close>, and its include is not resolved:
  the object is returned without \<open>ui\<close> and the error is shown.
\<close>

theorem createScripts_markup_single_root:
  "resolve exampleProject ''M'' (includePaths resolvingDeps) = Inr moduleM
   \<and> index (includePaths resolvingDeps) 0 = Some ''dirX''
   \<and> createScripts resolvingDeps [(''Good.bbbbbb.lua'', ()), (''Good.bbbbbb.xml'', ())]
         outputUri
       = (Inr [\<lparr>guid_out = Some ''bbbbbb'',
                 script_out = ''dirY/M.lua,/ws/.tts/Good.bbbbbb.lua'',
                 ui_out = None\<rparr>],
          [ConsoleLog ''Using include paths dirX,dirY'',
           OutputLine ''Using include paths dirX,dirY'',
           ShowErrorMessage ''M:1'',
           ConsoleErrorStack \<lparr>errName = ''UnresolvedIncludeError'', message = ''M:1''\<rparr>])"
  by code_simp

subsection \<open>\<open>saveAndPlay\<close>\<close>

lemma sends_append: "sends (xs @ ys) \<longleftrightarrow> sends xs \<or> sends ys"
  by (auto simp: sends_def)

lemma not_sends_info: "\<not> sends (info msg)"
  by (simp add: sends_def info_def)

lemma not_sends_error: "\<not> sends (error msg)"
  by (simp add: sends_def error_def)

lemma transpile_not_sends: "\<not> sends (snd (transpile d))"
  by (auto simp: transpile_def Let_def sends_append not_sends_info split: sum.splits)

lemma createScripts_throws:
  "createScripts d files directory = (Inl e, evs) \<Longrightarrow> transpile d = (Inl e, evs)"
  by (cases "transpile d") (auto simp: createScripts_def Let_def split_beta split: sum.splits)

lemma createScripts_throws_not_sends:
  "createScripts d files directory = (Inl e, evs) \<Longrightarrow> \<not> sends evs"
  using transpile_not_sends[of d] createScripts_throws[of d files directory e evs] by simp

lemma saveAndPlay_resolves: "fst (saveAndPlay d) = Inr ()"
  by (simp add: saveAndPlay_def split: prod.splits sum.splits)

lemma saveAllFiles_reject:
  "saveAll d = Inl reason \<Longrightarrow>
   saveAllFiles d = Inl (newError (''Unable to save opened files.'' @ [CHR 0x0A] @ ''Detail: ''
                         @ toString reason))"
  by (simp add: saveAllFiles_def)

lemma saveAllFiles_ok: "saveAll d = Inr b \<Longrightarrow> saveAllFiles d = Inr ()"
  by (simp add: saveAllFiles_def)

lemma trySaveAndPlay_thrown_not_sends:
  "trySaveAndPlay d = (Inl e, evs) \<Longrightarrow> \<not> sends evs"
  using createScripts_throws_not_sends[of d]
  by (auto simp: trySaveAndPlay_def sends_def split: sum.splits prod.splits)

lemma saveAndPlay_thrown_not_sends:
  "fst (trySaveAndPlay d) \<noteq> Inr () \<Longrightarrow> \<not> sends (snd (saveAndPlay d))"
proof -
  assume ne: "fst (trySaveAndPlay d) \<noteq> Inr ()"
  obtain r evs where t: "trySaveAndPlay d = (r, evs)" by (cases "trySaveAndPlay d")
  with ne obtain e where r: "r = Inl e" by (cases r) auto
  from trySaveAndPlay_thrown_not_sends[of d e evs] t r have "\<not> sends evs" by simp
  then show ?thesis using t r by (simp add: saveAndPlay_def sends_append not_sends_error)
qed

text \<open>
  C10. The promise of \<open>saveAndPlay\<close> always resolves. When \<open>workspace.saveAll\<close> rejects, the
  error raised is an \<open>Error\<close> whose message begins with \<open>Unable to save opened files.\<close>, and
  it is logged: its text goes to the console as an error and to the output channel. When the
  output path cannot be had, when reading the workspace files throws, or when
  \<open>createScripts\<close> throws, the text of the error is logged in the same way, after what was
  logged before it. In every case where the \<open>try\<close> block ends with a throw, no call of
  \<open>api.saveAndPlay\<close> is made.
\<close>

theorem saveAndPlay_never_rejects:
  "fst (saveAndPlay d) = Inr ()
   \<and> (saveAll d = Inl reason \<longrightarrow>
        (\<exists>msg. saveAllFiles d = Inl \<lparr>errName = ''Error'', message = msg\<rparr>
           \<and> prefix ''Unable to save opened files.'' msg
           \<and> saveAndPlay d
               = (Inr (), [ConsoleError (''Error: '' @ msg), OutputLine (''Error: '' @ msg)])))
   \<and> (saveAll d = Inr saved \<and> getOutputPath d = Inl e1 \<longrightarrow>
        saveAndPlay d = (Inr (), [ConsoleError (toString e1), OutputLine (toString e1)]))
   \<and> (saveAll d = Inr saved \<and> getOutputPath d = Inr outputPath
        \<and> readWorkspaceFiles d outputPath = Inl e2 \<longrightarrow>
        saveAndPlay d = (Inr (), [ConsoleError (toString e2), OutputLine (toString e2)]))
   \<and> (saveAll d = Inr saved \<and> getOutputPath d = Inr outputPath
        \<and> readWorkspaceFiles d outputPath = Inr files
        \<and> createScripts d files outputPath = (Inl e3, evs) \<longrightarrow>
        saveAndPlay d
          = (Inr (), evs @ [ConsoleError (toString e3), OutputLine (toString e3)]))
   \<and> (fst (trySaveAndPlay d) \<noteq> Inr () \<longrightarrow>
        (\<forall>scripts. ApiSaveAndPlay scripts \<notin> set (snd (saveAndPlay d))))"
proof (intro conjI impI)
  show "fst (saveAndPlay d) = Inr ()" by (rule saveAndPlay_resolves)
next
  assume r: "saveAll d = Inl reason"
  let ?msg = "''Unable to save opened files.'' @ [CHR 0x0A] @ ''Detail: '' @ toString reason"
  have "saveAllFiles d = Inl \<lparr>errName = ''Error'', message = ?msg\<rparr>"
    using saveAllFiles_reject[OF r] by (simp add: newError_def)
  moreover have "prefix ''Unable to save opened files.'' ?msg" by simp
  moreover have "saveAndPlay d
      = (Inr (), [ConsoleError (''Error: '' @ ?msg), OutputLine (''Error: '' @ ?msg)])"
    using saveAllFiles_reject[OF r]
    by (simp add: saveAndPlay_def trySaveAndPlay_def toString_def newError_def error_def)
  ultimately show "\<exists>msg. saveAllFiles d = Inl \<lparr>errName = ''Error'', message = msg\<rparr>
           \<and> prefix ''Unable to save opened files.'' msg
           \<and> saveAndPlay d
               = (Inr (), [ConsoleError (''Error: '' @ msg), OutputLine (''Error: '' @ msg)])"
    by blast
next
  assume "saveAll d = Inr saved \<and> getOutputPath d = Inl e1"
  then show "saveAndPlay d = (Inr (), [ConsoleError (toString e1), OutputLine (toString e1)])"
    using saveAllFiles_ok[of d saved]
    by (simp add: saveAndPlay_def trySaveAndPlay_def error_def)
next
  assume "saveAll d = Inr saved \<and> getOutputPath d = Inr outputPath
        \<and> readWorkspaceFiles d outputPath = Inl e2"
  then show "saveAndPlay d = (Inr (), [ConsoleError (toString e2), OutputLine (toString e2)])"
    using saveAllFiles_ok[of d saved]
    by (simp add: saveAndPlay_def trySaveAndPlay_def error_def)
next
  assume h: "saveAll d = Inr saved \<and> getOutputPath d = Inr outputPath
        \<and> readWorkspaceFiles d outputPath = Inr files
        \<and> createScripts d files outputPath = (Inl e3, evs)"
  then show "saveAndPlay d
      = (Inr (), evs @ [ConsoleError (toString e3), OutputLine (toString e3)])"
    using saveAllFiles_ok[of d saved]
    by (simp add: saveAndPlay_def trySaveAndPlay_def error_def)
next
  assume "fst (trySaveAndPlay d) \<noteq> Inr ()"
  then have "\<not> sends (snd (saveAndPlay d))"
    by (rule saveAndPlay_thrown_not_sends)
  then show "\<forall>scripts. ApiSaveAndPlay scripts \<notin> set (snd (saveAndPlay d))"
    by (simp add: sends_def)
qed

theorem saveAndPlay_never_rejects_witness:
  "saveAll failingSave = Inl \<lparr>errName = ''Error'', message = ''disk full''\<rparr>
   \<and> saveAndPlay failingSave
       = (Inr (),
          [ConsoleError (''Error: Unable to save opened files.'' @ [CHR 0x0A]
                         @ ''Detail: Error: disk full''),
           OutputLine (''Error: Unable to save opened files.'' @ [CHR 0x0A]
                       @ ''Detail: Error: disk full'')])
   \<and> fst (trySaveAndPlay failingSave) \<noteq> Inr ()
   \<and> (\<forall>scripts. ApiSaveAndPlay scripts \<notin> set (snd (saveAndPlay failingSave)))
   \<and> saveAll failingRead = Inr True \<and> getOutputPath failingRead = Inr outputUri
   \<and> readWorkspaceFiles failingRead outputUri
       = Inl \<lparr>errName = ''Error'', message = ''cannot read''\<rparr>
   \<and> saveAndPlay failingRead
       = (Inr (), [ConsoleError ''Error: cannot read'', OutputLine ''Error: cannot read''])
   \<and> saveAll failingTranspile = Inr True \<and> getOutputPath failingTranspile = Inr outputUri
   \<and> readWorkspaceFiles failingTranspile outputUri = Inr [(''Good.bbbbbb.lua'', ())]
   \<and> createScripts failingTranspile [(''Good.bbbbbb.lua'', ())] outputUri
       = (Inl \<lparr>errName = ''Error'', message = ''tstl failed''\<rparr>,
          [ConsoleLog ''Using include paths dirX,dirY'',
           OutputLine ''Using include paths dirX,dirY'',
           ConsoleLog ''Running Typescript to Lua on /ws/tstl'',
           OutputLine ''Running Typescript to Lua on /ws/tstl''])
   \<and> saveAndPlay failingTranspile
       = (Inr (),
          [ConsoleLog ''Using include paths dirX,dirY'',
           OutputLine ''Using include paths dirX,dirY'',
           ConsoleLog ''Running Typescript to Lua on /ws/tstl'',
           OutputLine ''Running Typescript to Lua on /ws/tstl'',
           ConsoleError ''Error: tstl failed'', OutputLine ''Error: tstl failed''])"
proof -
  have s1: "saveAll failingSave = Inl \<lparr>errName = ''Error'', message = ''disk full''\<rparr>"
    by (simp add: failingSave_def exampleDeps_def newError_def)
  have f1: "saveAllFiles failingSave
      = Inl \<lparr>errName = ''Error'',
             message = ''Unable to save opened files.'' @ [CHR 0x0A]
                       @ ''Detail: Error: disk full''\<rparr>"
    by (simp add: saveAllFiles_def s1 newError_def toString_def)
  have s2: "saveAll failingRead = Inr True" "getOutputPath failingRead = Inr outputUri"
    "readWorkspaceFiles failingRead outputUri
       = Inl \<lparr>errName = ''Error'', message = ''cannot read''\<rparr>"
    by (simp_all add: failingRead_def exampleDeps_def getOutputPath_def getWorkspaceRoot_def
        workspaceUri_def outputUri_def newError_def)
  have s3: "saveAll failingTranspile = Inr True" "getOutputPath failingTranspile = Inr outputUri"
    "readWorkspaceFiles failingTranspile outputUri = Inr [(''Good.bbbbbb.lua'', ())]"
    by (simp_all add: failingTranspile_def exampleDeps_def getOutputPath_def
        getWorkspaceRoot_def workspaceUri_def outputUri_def)
  have c3: "createScripts failingTranspile [(''Good.bbbbbb.lua'', ())] outputUri
       = (Inl \<lparr>errName = ''Error'', message = ''tstl failed''\<rparr>,
          [ConsoleLog ''Using include paths dirX,dirY'',
           OutputLine ''Using include paths dirX,dirY'',
           ConsoleLog ''Running Typescript to Lua on /ws/tstl'',
           OutputLine ''Running Typescript to Lua on /ws/tstl''])"
    by (simp add: createScripts_def transpile_def failingTranspile_def exampleDeps_def
        getTSTLPath_def getWorkspaceRoot_def workspaceUri_def info_def newError_def Let_def)
  note a = saveAndPlay_never_rejects[of failingSave
      "\<lparr>errName = ''Error'', message = ''disk full''\<rparr>"]
  note b = saveAndPlay_never_rejects[of failingRead _ True _ outputUri
      "\<lparr>errName = ''Error'', message = ''cannot read''\<rparr>"]
  note c = saveAndPlay_never_rejects[of failingTranspile _ True _ outputUri _
      "[(''Good.bbbbbb.lua'', ())]" "\<lparr>errName = ''Error'', message = ''tstl failed''\<rparr>"
      "[ConsoleLog ''Using include paths dirX,dirY'',
        OutputLine ''Using include paths dirX,dirY'',
        ConsoleLog ''Running Typescript to Lua on /ws/tstl'',
        OutputLine ''Running Typescript to Lua on /ws/tstl'']"]
  have t1: "fst (trySaveAndPlay failingSave) \<noteq> Inr ()"
    by (simp add: trySaveAndPlay_def f1)
  with a have ns: "\<forall>scripts. ApiSaveAndPlay scripts \<notin> set (snd (saveAndPlay failingSave))"
    by blast
  from a s1 obtain msg where
    m: "saveAllFiles failingSave = Inl \<lparr>errName = ''Error'', message = msg\<rparr>"
    and sp: "saveAndPlay failingSave
               = (Inr (), [ConsoleError (''Error: '' @ msg), OutputLine (''Error: '' @ msg)])"
    by blast
  from m f1 have "msg = ''Unable to save opened files.'' @ [CHR 0x0A]
                       @ ''Detail: Error: disk full''"
    by simp
  with sp have "saveAndPlay failingSave
       = (Inr (),
          [ConsoleError (''Error: Unable to save opened files.'' @ [CHR 0x0A]
                         @ ''Detail: Error: disk full''),
           OutputLine (''Error: Unable to save opened files.'' @ [CHR 0x0A]
                       @ ''Detail: Error: disk full'')])"
    by simp
  moreover from b s2 have "saveAndPlay failingRead
       = (Inr (), [ConsoleError ''Error: cannot read'', OutputLine ''Error: cannot read''])"
    by (simp add: toString_def)
  moreover from c s3 c3 have "saveAndPlay failingTranspile
       = (Inr (),
          [ConsoleLog ''Using include paths dirX,dirY'',
           OutputLine ''Using include paths dirX,dirY'',
           ConsoleLog ''Running Typescript to Lua on /ws/tstl'',
           OutputLine ''Running Typescript to Lua on /ws/tstl'',
           ConsoleError ''Error: tstl failed'', OutputLine ''Error: tstl failed''])"
    by (simp add: toString_def)
  ultimately show ?thesis using s1 t1 ns s2 s3 c3 by blast
qed

section \<open>Properties of the bundling core\<close>

subsection \<open>Resolution\<close>

lemma resolveIn_first:
  "\<forall>r \<in> set before. map_of proj (r, nm) = None \<Longrightarrow> map_of proj (root, nm) = Some m \<Longrightarrow>
   resolveIn proj nm (before @ root # after) = Some m"
  by (induction before) auto

lemma resolveIn_none:
  "\<forall>r \<in> set roots. map_of proj (r, nm) = None \<Longrightarrow> resolveIn proj nm roots = None"
  by (induction roots) auto

text \<open>
  C7. Resolution returns the file under the earliest search root that has the module: the
  roots before it in the list have no file of that name, and whatever follows it in the list
  is not looked at. With the search paths \<open>dirX, dirY\<close> and the module under both, it returns
  the file under \<open>dirX\<close>.
\<close>

theorem resolve_first_match_wins:
  "((\<forall>r \<in> set before. map_of proj (r, nm) = None) \<and> map_of proj (root, nm) = Some m
      \<longrightarrow> resolve proj nm (before @ root # after) = Inr m)
   \<and> (map_of proj (dirX, nm) = Some mx \<and> map_of proj (dirY, nm) = Some my
      \<longrightarrow> resolve proj nm [dirX, dirY] = Inr mx)"
  by (simp add: resolve_def resolveIn_first)

theorem resolve_first_match_wins_witness:
  "map_of bothProject (''dirX'', ''M'') = Some moduleX
   \<and> map_of bothProject (''dirY'', ''M'') = Some moduleM
   \<and> resolve bothProject ''M'' [''dirX'', ''dirY''] = Inr moduleX
   \<and> map_of bothProject (''dirZ'', ''M'') = None
   \<and> resolve bothProject ''M'' [''dirZ'', ''dirY'', ''dirX''] = Inr moduleM"
proof -
  have h: "map_of bothProject (''dirX'', ''M'') = Some moduleX"
    "map_of bothProject (''dirY'', ''M'') = Some moduleM"
    "map_of bothProject (''dirZ'', ''M'') = None"
    by (simp_all add: bothProject_def)
  from resolve_first_match_wins[of "[''dirZ'']" bothProject "''M''" "''dirY''" moduleM
      "[''dirX'']" "''dirX''" moduleX "''dirY''" moduleM] h
  show ?thesis by simp
qed

subsection \<open>The walk\<close>

lemma visitIncludes_append:
  "visitIncludes proj roots stack finished (ds @ es) =
     (case visitIncludes proj roots stack finished ds of
        Inl e \<Rightarrow> Inl e
      | Inr finished' \<Rightarrow> visitIncludes proj roots stack finished' es)"
proof (induction ds arbitrary: finished)
  case Nil
  then show ?case by simp
next
  case (Cons d ds)
  show ?case
  proof (cases "resolve proj (target d) roots")
    case (Inl e)
    then show ?thesis by simp
  next
    case (Inr m)
    show ?thesis
    proof (cases "visitModule proj roots stack finished m")
      case (Inl e)
      with Inr Cons.IH show ?thesis by simp
    next
      case r: (Inr fin')
      with Inr Cons.IH show ?thesis by simp
    qed
  qed
qed

text \<open>An acyclic walk gives the flattening order: a module's dependencies before itself.\<close>

lemma buildGraph_example:
  "buildGraph exampleProject [''dirX'', ''dirY''] (exampleRoot ''/ws/.tts/Good.bbbbbb.lua'')
     = Inr [''dirY/M.lua'', ''/ws/.tts/Good.bbbbbb.lua'']"
  by code_simp

text \<open>
  C5. When the first include of \<open>A\<close> resolves to \<open>B\<close>, a different module, and the first
  include of \<open>B\<close> resolves to \<open>A\<close>, bundling \<open>A\<close> fails with the CyclicIncludeError whose
  chain is the path of \<open>A\<close>, the path of \<open>B\<close>, the path of \<open>A\<close>, whatever the emission is.
\<close>

theorem bundle_cycle_of_two:
  assumes "absPath a \<noteq> absPath b"
    and "directives a = da # as" and "resolve proj (target da) roots = Inr b"
    and "directives b = db # bs" and "resolve proj (target db) roots = Inr a"
  shows "bundleDocument emit proj roots a
           = Inl (CyclicIncludeError [absPath a, absPath b, absPath a])"
  using assms by (simp add: bundleDocument_def buildGraph_def)

theorem bundle_cycle_of_two_witness:
  "absPath cycleA \<noteq> absPath cycleB
   \<and> directives cycleA = [\<lparr>directiveText = ''require B'', target = ''B'', line = 1\<rparr>]
   \<and> resolve cycleProject ''B'' [''lib''] = Inr cycleB
   \<and> directives cycleB = [\<lparr>directiveText = ''require A'', target = ''A'', line = 1\<rparr>]
   \<and> resolve cycleProject ''A'' [''lib''] = Inr cycleA
   \<and> bundleDocument exampleEmit cycleProject [''lib''] cycleA
       = Inl (CyclicIncludeError [''lib/A.lua'', ''lib/B.lua'', ''lib/A.lua''])"
proof -
  have h: "absPath cycleA \<noteq> absPath cycleB"
    "directives cycleA = [\<lparr>directiveText = ''require B'', target = ''B'', line = 1\<rparr>]"
    "resolve cycleProject ''B'' [''lib''] = Inr cycleB"
    "directives cycleB = [\<lparr>directiveText = ''require A'', target = ''A'', line = 1\<rparr>]"
    "resolve cycleProject ''A'' [''lib''] = Inr cycleA"
    by (simp_all add: cycleA_def cycleB_def cycleProject_def resolve_def)
  have "bundleDocument exampleEmit cycleProject [''lib''] cycleA
       = Inl (CyclicIncludeError [absPath cycleA, absPath cycleB, absPath cycleA])"
    by (rule bundle_cycle_of_two[OF h(1) h(2) _ h(4)]) (simp_all add: h)
  then show ?thesis using h by (simp add: cycleA_def cycleB_def)
qed

text \<open>
  In this walk, an include whose module name matches no file under any search root, met
  after the includes before it were walked without error, ends the walk with the
  UnresolvedIncludeError that wraps the ModuleNotFoundError of that name and carries the line
  of that directive.
\<close>

lemma visitIncludes_first_unresolved:
  assumes "visitIncludes proj roots stack finished before = Inr finished'"
    and "\<forall>r \<in> set roots. map_of proj (r, target d) = None"
  shows "visitIncludes proj roots stack finished (before @ d # after)
           = Inl (UnresolvedIncludeError (ModuleNotFoundError (target d) roots) (line d))"
  using assms resolveIn_none[of roots proj "target d"]
  by (simp add: visitIncludes_append resolve_def)

subsection \<open>Unbundling\<close>

lemma scanLines_plain:
  "\<forall>l \<in> set ls. recognise l = None \<Longrightarrow> opened st = [] \<Longrightarrow> \<not> seen st \<Longrightarrow>
   \<exists>st'. scanLines recognise st ls = Some st' \<and> \<not> seen st'"
proof (induction ls arbitrary: st)
  case Nil
  then show ?case by simp
next
  case (Cons l ls)
  let ?st = "st\<lparr>leading := leading st @ [l]\<rparr>"
  from Cons.prems have step: "scanLine recognise st l = Some ?st"
    by (simp add: scanLine_def)
  from Cons.prems have "\<forall>l \<in> set ls. recognise l = None" "opened ?st = []" "\<not> seen ?st"
    by simp_all
  from Cons.IH[OF this] step show ?case by simp
qed

text \<open>
  A well-formed document: the block gives the module under its recorded path, and the lines
  around it the leading and the trailing module. Without its closing marker the same
  document is one unsplit module.
\<close>

lemma unbundleDocument_example:
  "unbundleDocument exampleMarker
     (''a'' @ [CHR 0x0A] @ ''-- begin lib'' @ [CHR 0x0A] @ ''x = 1'' @ [CHR 0x0A]
      @ ''-- end lib'' @ [CHR 0x0A] @ ''b'')
   = \<lparr>modules = [(Leading, ''a''), (Original ''lib.lua'', ''x = 1''), (Trailing, ''b'')],
      condition = None\<rparr>"
  "condition (unbundleDocument exampleMarker
     (''a'' @ [CHR 0x0A] @ ''-- begin lib'' @ [CHR 0x0A] @ ''x = 1''))
   = Some MalformedBundleError"
  by code_simp+

text \<open>
  C2. For every text none of whose lines is a marker, unbundling returns exactly one module,
  whose content is the text unchanged, together with the condition MalformedBundleError: the
  condition is part of the result, nothing is thrown. In the adapter, whenever \<open>unbundleLua\<close>
  throws, \<open>getUnbundledLua\<close> logs the error to the console and returns its argument.
\<close>

theorem unbundle_without_markers:
  "((\<forall>l \<in> set (split (CHR 0x0A) combinedContent). recognise l = None)
      \<longrightarrow> unbundleDocument recognise combinedContent
            = \<lparr>modules = [(Unsplit, combinedContent)], condition = Some MalformedBundleError\<rparr>)
   \<and> (unbundleLua d scr = Inl e \<longrightarrow> getUnbundledLua d scr = (scr, [ConsoleErrorValue e]))"
proof (intro conjI impI)
  assume "\<forall>l \<in> set (split (CHR 0x0A) combinedContent). recognise l = None"
  from scanLines_plain[OF this, of initial]
  obtain st' where "scanLines recognise initial (split (CHR 0x0A) combinedContent) = Some st'"
    and "\<not> seen st'"
    by (auto simp: initial_def)
  then show "unbundleDocument recognise combinedContent
            = \<lparr>modules = [(Unsplit, combinedContent)], condition = Some MalformedBundleError\<rparr>"
    by (simp add: unbundleDocument_def)
next
  assume "unbundleLua d scr = Inl e"
  then show "getUnbundledLua d scr = (scr, [ConsoleErrorValue e])"
    by (simp add: getUnbundledLua_def)
qed

theorem unbundle_without_markers_witness:
  "split (CHR 0x0A) (''print(1)'' @ [CHR 0x0A] @ ''x = 2'') = [''print(1)'', ''x = 2'']
   \<and> exampleMarker ''print(1)'' = None \<and> exampleMarker ''x = 2'' = None
   \<and> unbundleDocument exampleMarker (''print(1)'' @ [CHR 0x0A] @ ''x = 2'')
       = \<lparr>modules = [(Unsplit, ''print(1)'' @ [CHR 0x0A] @ ''x = 2'')],
          condition = Some MalformedBundleError\<rparr>
   \<and> unbundleLua exampleDeps ''broken'' = Inl (newError ''not a bundle'')
   \<and> getUnbundledLua exampleDeps ''broken''
       = (''broken'', [ConsoleErrorValue (newError ''not a bundle'')])"
proof -
  have l: "split (CHR 0x0A) (''print(1)'' @ [CHR 0x0A] @ ''x = 2'') = [''print(1)'', ''x = 2'']"
    by simp
  have m: "exampleMarker ''print(1)'' = None" "exampleMarker ''x = 2'' = None"
    by (simp_all add: exampleMarker_def)
  have h1: "\<forall>l \<in> set (split (CHR 0x0A) (''print(1)'' @ [CHR 0x0A] @ ''x = 2'')).
              exampleMarker l = None"
    unfolding l using m by simp
  have h2: "unbundleLua exampleDeps ''broken'' = Inl (newError ''not a bundle'')"
    by (simp add: exampleDeps_def)
  from unbundle_without_markers[of "''print(1)'' @ [CHR 0x0A] @ ''x = 2''" exampleMarker
      exampleDeps "''broken''" "newError ''not a bundle''"] h1 h2
  have "unbundleDocument exampleMarker (''print(1)'' @ [CHR 0x0A] @ ''x = 2'')
       = \<lparr>modules = [(Unsplit, ''print(1)'' @ [CHR 0x0A] @ ''x = 2'')],
          condition = Some MalformedBundleError\<rparr>"
    and "getUnbundledLua exampleDeps ''broken''
       = (''broken'', [ConsoleErrorValue (newError ''not a bundle'')])"
    by blast+
  then show ?thesis using l m h2 by blast
qed

end
